theory Spec2Isabelle
  imports Main "HOL-Library.Sublist"
begin

section \<open>The searchable multi-select widget (multiple-selector)\<close>

subsection \<open>Options, widget state and props\<close>

text \<open>
  \<^verbatim>\<open>interface Option { value: string; label: string; disable?: boolean; fixed?: boolean }\<close>.
  The two flags are optional properties: \<open>None\<close> is a property that is absent
  (it reads as \<^verbatim>\<open>undefined\<close>).
\<close>

record Option =
  "value" :: string
  label :: string
  disable :: "bool option"
  fixed :: "bool option"

text \<open>JavaScript truthiness of an optional boolean, as in \<^verbatim>\<open>s.fixed\<close> used as a condition.\<close>

definition truthy :: "bool option \<Rightarrow> bool" where
  "truthy b = (b = Some True)"

text \<open>
  The \<^verbatim>\<open>useState\<close> cells of \<^verbatim>\<open>MultipleSelector\<close>, and the debounced copy of the query text
  that \<^verbatim>\<open>useDebounce\<close> keeps. A handler reads the cells of the render it was created in
  and schedules new contents, so a handler is a function from the state it reads to the
  state it leaves.
\<close>

record WidgetState =
  selected :: "Option list"
  options :: "Option list"
  inputValue :: string
  debouncedSearchTerm :: string
  isLoading :: bool
  "open" :: bool

text \<open>
  What the promise returned by the caller's \<^verbatim>\<open>onSearch\<close> settles to: it resolves with a
  result (\<^verbatim>\<open>res || []\<close> also accepts a missing one) or rejects with a reason.
\<close>

datatype SearchOutcome = Resolved "Option list option" | Rejected string

text \<open>
  The props the handlers read. Callback props are optional; they return into the host,
  whose reaction is a value of type \<open>'e\<close>. \<^verbatim>\<open>maxSelected\<close> defaults to
  \<^verbatim>\<open>Number.MAX_SAFE_INTEGER\<close>, \<^verbatim>\<open>creatable\<close> and \<^verbatim>\<open>triggerSearchOnFocus\<close> to false.
\<close>

record 'e Props =
  maxSelected :: int
  onMaxSelected :: "(nat \<Rightarrow> 'e) option"
  onChange :: "(Option list \<Rightarrow> 'e) option"
  onSearch :: "(string \<Rightarrow> SearchOutcome) option"
  creatable :: bool
  triggerSearchOnFocus :: bool

definition MAX_SAFE_INTEGER :: int where
  "MAX_SAFE_INTEGER = 2 ^ 53 - 1"

text \<open>
  What a handler does besides scheduling state: calls of the host's callbacks, and
  \<^verbatim>\<open>input.blur()\<close> on the text input.
\<close>

datatype 'e Effect = Callback 'e | InputBlur

text \<open>The optional call \<^verbatim>\<open>f?.(x)\<close>: nothing happens when the prop is absent.\<close>

definition optCall :: "('a \<Rightarrow> 'e) option \<Rightarrow> 'a \<Rightarrow> 'e Effect list" where
  "optCall f x = (case f of None \<Rightarrow> [] | Some g \<Rightarrow> [Callback (g x)])"

subsection \<open>Strings of the host language\<close>

text \<open>
  A string is the list of its characters (its UTF-8 bytes); the widget compares strings
  for equality, tests a length against zero only, and calls two library functions.
  \<^verbatim>\<open>String.prototype.toLowerCase\<close> is the library's: it folds letters of every script and
  is not written out here. The functions that call it take it as their first argument,
  \<open>toLowerCase\<close>, and what is proved of them holds for every such function.
  \<^verbatim>\<open>s.includes(q)\<close> is containment of \<open>q\<close> as a contiguous part of \<open>s\<close>.
\<close>

fun str_includes :: "string \<Rightarrow> string \<Rightarrow> bool" where
  "str_includes [] q = (q = [])"
| "str_includes (c # cs) q = (prefix q (c # cs) \<or> str_includes cs q)"

subsection \<open>The candidate list\<close>

text \<open>
  \<^verbatim>\<open>removePickedOption(options, picked, debouncedSearchTerm)\<close>: two filters and a map that
  builds a fresh object with the two properties \<^verbatim>\<open>value\<close> and \<^verbatim>\<open>label\<close> only.
\<close>

definition removePickedOption ::
  "(string \<Rightarrow> string) \<Rightarrow> Option list \<Rightarrow> Option list \<Rightarrow> string \<Rightarrow> Option list" where
  "removePickedOption toLowerCase opts picked term =
     map (\<lambda>val. \<lparr>value = value val, label = label val, disable = None, fixed = None\<rparr>)
       (filter (\<lambda>option. str_includes (toLowerCase (value option)) (toLowerCase term))
         (filter (\<lambda>val. find (\<lambda>p. value p = value val) picked = None) opts))"

text \<open>\<^verbatim>\<open>isOptionsExist(options, targetOption)\<close>.\<close>

definition isOptionsExist ::
  "(string \<Rightarrow> string) \<Rightarrow> Option list \<Rightarrow> Option list \<Rightarrow> bool" where
  "isOptionsExist toLowerCase opts targetOption =
     list_ex (\<lambda>option. list_ex (\<lambda>target. toLowerCase (value target) = toLowerCase (value option))
        targetOption) opts"

text \<open>
  The \<^verbatim>\<open>selectables\<close> memo: with an async search configured the query passed on is the
  empty string.
\<close>

definition selectables ::
  "(string \<Rightarrow> string) \<Rightarrow> 'e Props \<Rightarrow> WidgetState \<Rightarrow> Option list" where
  "selectables toLowerCase props st =
     removePickedOption toLowerCase (options st) (selected st)
       (if onSearch props \<noteq> None then [] else debouncedSearchTerm st)"

text \<open>
  One \<^verbatim>\<open>CommandItem\<close> of \<^verbatim>\<open>CommandGroupContent\<close>: the item the virtualizer materializes
  for index \<open>i\<close> reads \<^verbatim>\<open>selectables[i]\<close>; its \<^verbatim>\<open>onSelect\<close> passes that same object on.
  The virtualizer only hands out indices below \<^verbatim>\<open>count = selectables.length\<close>; beyond that
  \<^verbatim>\<open>selectables[i]\<close> is undefined and reading its \<^verbatim>\<open>value\<close> throws (\<open>None\<close>).
\<close>

record CommandItem =
  cmdValue :: string
  cmdDisabled :: "bool option"
  cmdLabel :: string
  cmdOption :: Option

definition CommandGroupContent_item :: "Option list \<Rightarrow> nat \<Rightarrow> CommandItem option" where
  "CommandGroupContent_item sel i =
     (if i < length sel
      then (let option = sel ! i
            in Some \<lparr>cmdValue = value option, cmdDisabled = disable option,
                     cmdLabel = label option, cmdOption = option\<rparr>)
      else None)"

subsection \<open>Selecting, unselecting and clearing\<close>

text \<open>The \<^verbatim>\<open>onSelect\<close> handler that \<^verbatim>\<open>MultipleSelector\<close> passes to \<^verbatim>\<open>CommandGroupContent\<close>.\<close>

definition onSelect :: "'e Props \<Rightarrow> WidgetState \<Rightarrow> Option \<Rightarrow> WidgetState \<times> 'e Effect list" where
  "onSelect props st option =
     (if maxSelected props \<le> int (length (selected st))
      then (st, optCall (onMaxSelected props) (length (selected st)))
      else (let newOptions = selected st @ [option]
            in (st\<lparr>inputValue := [], selected := newOptions\<rparr>,
                optCall (onChange props) newOptions)))"

text \<open>
  The \<^verbatim>\<open>onSelect\<close> handler of the "Create ..." item; \<open>v\<close> is the string the command
  list passes to it.
\<close>

definition CreatableItem_onSelect :: "'e Props \<Rightarrow> WidgetState \<Rightarrow> string \<Rightarrow> WidgetState \<times> 'e Effect list" where
  "CreatableItem_onSelect props st v =
     (if maxSelected props \<le> int (length (selected st))
      then (st, optCall (onMaxSelected props) (length (selected st)))
      else (let newOptions = selected st @ [\<lparr>value = v, label = v, disable = None, fixed = None\<rparr>]
            in (st\<lparr>inputValue := [], selected := newOptions\<rparr>,
                optCall (onChange props) newOptions)))"

text \<open>
  \<^verbatim>\<open>CreatableItem()\<close>: whether the "Create ..." item is rendered, and with which value.
\<close>

definition CreatableItem ::
  "(string \<Rightarrow> string) \<Rightarrow> 'e Props \<Rightarrow> WidgetState \<Rightarrow> string option" where
  "CreatableItem toLowerCase props st =
     (if \<not> creatable props then None
      else if isOptionsExist toLowerCase (options st)
                [\<lparr>value = inputValue st, label = inputValue st, disable = None, fixed = None\<rparr>]
              \<or> find (\<lambda>s. toLowerCase (value s) = toLowerCase (inputValue st)) (selected st) \<noteq> None
      then None
      else if onSearch props = None \<and> 0 < length (inputValue st) then Some (inputValue st)
      else if onSearch props \<noteq> None \<and> 0 < length (debouncedSearchTerm st) \<and> \<not> isLoading st
      then Some (inputValue st)
      else None)"

text \<open>\<^verbatim>\<open>handleUnselect(option)\<close>: removal is by value.\<close>

definition handleUnselect :: "'e Props \<Rightarrow> WidgetState \<Rightarrow> Option \<Rightarrow> WidgetState \<times> 'e Effect list" where
  "handleUnselect props st option =
     (let newOptions = filter (\<lambda>s. value s \<noteq> value option) (selected st)
      in (st\<lparr>selected := newOptions\<rparr>, optCall (onChange props) newOptions))"

text \<open>
  \<^verbatim>\<open>handleKeyDown(e)\<close>. \<open>input\<close> is \<^verbatim>\<open>inputRef.current\<close>: \<open>None\<close> while the ref is
  null, otherwise the text the input element holds; \<open>key\<close> is \<^verbatim>\<open>e.key\<close>.
\<close>

definition handleKeyDown :: "'e Props \<Rightarrow> string option \<Rightarrow> string \<Rightarrow> WidgetState \<Rightarrow> WidgetState \<times> 'e Effect list" where
  "handleKeyDown props input key st =
     (case input of
        None \<Rightarrow> (st, [])
      | Some inputText \<Rightarrow>
          (let (st1, eff1) =
                 (if key = ''Delete'' \<or> key = ''Backspace''
                  then (if inputText = [] \<and> 0 < length (selected st)
                        then (let lastSelectOption = last (selected st)
                              in if \<not> truthy (fixed lastSelectOption)
                                 then handleUnselect props st (last (selected st))
                                 else (st, []))
                        else (st, []))
                  else (st, []))
           in (st1, eff1 @ (if key = ''Escape'' then [InputBlur] else []))))"

text \<open>The \<^verbatim>\<open>onClick\<close> handler of the clear-all button.\<close>

definition clearAll_onClick :: "'e Props \<Rightarrow> WidgetState \<Rightarrow> WidgetState \<times> 'e Effect list" where
  "clearAll_onClick props st =
     (st\<lparr>selected := filter (\<lambda>s. truthy (fixed s)) (selected st)\<rparr>,
      optCall (onChange props) (filter (\<lambda>s. truthy (fixed s)) (selected st)))"

subsection \<open>The async search effect\<close>

text \<open>
  \<^verbatim>\<open>doSearch\<close>: the three state updates around \<^verbatim>\<open>await onSearch?.(debouncedSearchTerm)\<close>.
  There is no \<^verbatim>\<open>try\<close> around the \<^verbatim>\<open>await\<close>: a rejection leaves the function at that point,
  with the state as the first update left it (\<open>Inl\<close>, carrying the reason).
\<close>

definition doSearch :: "'e Props \<Rightarrow> WidgetState \<Rightarrow> (string \<times> WidgetState) + WidgetState" where
  "doSearch props st =
     (let st1 = st\<lparr>isLoading := True\<rparr>
      in case (case onSearch props of None \<Rightarrow> Resolved None
                                     | Some f \<Rightarrow> f (debouncedSearchTerm st)) of
           Rejected reason \<Rightarrow> Inl (reason, st1)
         | Resolved res \<Rightarrow>
             Inr (st1\<lparr>options := (case res of None \<Rightarrow> [] | Some r \<Rightarrow> r), isLoading := False\<rparr>))"

text \<open>
  \<^verbatim>\<open>exec\<close>, started by the effect as \<^verbatim>\<open>void exec()\<close>: up to two searches in sequence; a
  rejection of the first ends it.
\<close>

definition exec :: "'e Props \<Rightarrow> WidgetState \<Rightarrow> (string \<times> WidgetState) + WidgetState" where
  "exec props st =
     (if onSearch props = None \<or> \<not> open st then Inr st
      else case (if triggerSearchOnFocus props then doSearch props st else Inr st) of
             Inl failure \<Rightarrow> Inl failure
           | Inr st1 \<Rightarrow> (if debouncedSearchTerm st \<noteq> [] then doSearch props st1 else Inr st1))"

section \<open>The schema walker (AutoFormObject)\<close>

subsection \<open>Schema nodes\<close>

text \<open>
  A node of the schema library: its \<^verbatim>\<open>_def\<close> holds an optional description and what
  the node's class adds. The classes the walker tells apart by \<^verbatim>\<open>typeName\<close> or
  \<^verbatim>\<open>instanceof\<close> are constructors; \<open>ZodOther s inner\<close> is a node of any other class:
  \<open>s\<close> is its \<^verbatim>\<open>typeName\<close>, which is none of the names of the other constructors, and
  \<open>inner\<close> its \<^verbatim>\<open>_def.innerType\<close> where the class has one (a nullable, catch or readonly
  wrapper) and \<open>None\<close> where it has not (a date, a native enum, ...). The flag of
  \<open>ZodNumber\<close> is \<^verbatim>\<open>_def.coerce\<close>. An object's shape lists its keys in the order of
  \<^verbatim>\<open>Object.keys\<close>.
\<close>

datatype ZodType = ZodType (description: "string option") (zodDef: ZodDef)
and ZodDef =
    ZodString
  | ZodNumber bool
  | ZodBoolean
  | ZodEnum "string list"
  | ZodObject "(string \<times> ZodType) list"
  | ZodArray ZodType
  | ZodOptional ZodType
  | ZodDefault ZodType
  | ZodOther string "ZodType option"

text \<open>\<^verbatim>\<open>item._def.typeName\<close>.\<close>

fun typeName :: "ZodType \<Rightarrow> string" where
  "typeName (ZodType d ZodString) = ''ZodString''"
| "typeName (ZodType d (ZodNumber c)) = ''ZodNumber''"
| "typeName (ZodType d ZodBoolean) = ''ZodBoolean''"
| "typeName (ZodType d (ZodEnum vs)) = ''ZodEnum''"
| "typeName (ZodType d (ZodObject shape)) = ''ZodObject''"
| "typeName (ZodType d (ZodArray t)) = ''ZodArray''"
| "typeName (ZodType d (ZodOptional t)) = ''ZodOptional''"
| "typeName (ZodType d (ZodDefault t)) = ''ZodDefault''"
| "typeName (ZodType d (ZodOther s inner)) = s"

text \<open>
  \<^verbatim>\<open>item._def.innerType\<close>: the optional and the default wrapper have one, and so has
  every other class that wraps a node; the remaining nodes have no such property.
\<close>

fun def_innerType :: "ZodType \<Rightarrow> ZodType option" where
  "def_innerType (ZodType d (ZodOptional t)) = Some t"
| "def_innerType (ZodType d (ZodDefault t)) = Some t"
| "def_innerType (ZodType d (ZodOther s inner)) = inner"
| "def_innerType t = None"

text \<open>\<^verbatim>\<open>_def.coerce = true\<close> on a number node.\<close>

fun setCoerce :: "ZodType \<Rightarrow> ZodType" where
  "setCoerce (ZodType d (ZodNumber c)) = ZodType d (ZodNumber True)"
| "setCoerce t = t"

text \<open>\<^verbatim>\<open>_def.innerType._def.coerce = true\<close> on a wrapper of a number node.\<close>

fun setInnerCoerce :: "ZodType \<Rightarrow> ZodType" where
  "setInnerCoerce (ZodType d (ZodOptional t)) = ZodType d (ZodOptional (setCoerce t))"
| "setInnerCoerce (ZodType d (ZodDefault t)) = ZodType d (ZodDefault (setCoerce t))"
| "setInnerCoerce (ZodType d (ZodOther s (Some t))) = ZodType d (ZodOther s (Some (setCoerce t)))"
| "setInnerCoerce t = t"

text \<open>
  \<^verbatim>\<open>handleIfZodNumber(item)\<close> writes into the node it is given and returns it: the
  result is the node as the call leaves it.
\<close>

definition handleIfZodNumber :: "ZodType \<Rightarrow> ZodType" where
  "handleIfZodNumber item =
     (let isZodNumber = (typeName item = ''ZodNumber'');
          isInnerZodNumber = (case def_innerType item of
                                None \<Rightarrow> False
                              | Some inner \<Rightarrow> typeName inner = ''ZodNumber'')
      in if isZodNumber then setCoerce item
         else if isInnerZodNumber then setInnerCoerce item
         else item)"

text \<open>
  The \<^verbatim>\<open>while\<close> loop of \<^verbatim>\<open>isZodPrimitiveArray\<close>: as long as the node has an inner type,
  step into it.
\<close>

function unwrapInnerType :: "ZodType \<Rightarrow> ZodType" where
  "unwrapInnerType innerType =
     (case def_innerType innerType of
        Some inner \<Rightarrow> unwrapInnerType inner
      | None \<Rightarrow> innerType)"
  by pat_completeness auto
termination
proof (relation "measure size")
  show "wf (measure (size :: ZodType \<Rightarrow> nat))"
    by simp
next
  fix innerType inner
  assume "def_innerType innerType = Some inner"
  then show "(inner, innerType) \<in> measure size"
    by (cases innerType rule: def_innerType.cases) auto
qed

declare unwrapInnerType.simps [simp del]

text \<open>\<^verbatim>\<open>isZodPrimitiveArray(item)\<close> and the object it returns.\<close>

record PrimitiveArrayInfo =
  isPrimitiveArray :: bool
  isEnumOfPrimitives :: bool
  innerType :: ZodType

fun isPrimitiveDef :: "ZodDef \<Rightarrow> bool" where
  "isPrimitiveDef ZodString = True"
| "isPrimitiveDef (ZodNumber c) = True"
| "isPrimitiveDef ZodBoolean = True"
| "isPrimitiveDef other = False"

fun isEnumDef :: "ZodDef \<Rightarrow> bool" where
  "isEnumDef (ZodEnum vs) = True"
| "isEnumDef other = False"

definition isZodPrimitiveArray :: "ZodType \<Rightarrow> PrimitiveArrayInfo" where
  "isZodPrimitiveArray item =
     (let unwrapped = unwrapInnerType item
      in case zodDef unwrapped of
           ZodArray element \<Rightarrow>
             \<lparr>isPrimitiveArray = isPrimitiveDef (zodDef element),
              isEnumOfPrimitives = isEnumDef (zodDef element),
              innerType = element\<rparr>
         | other \<Rightarrow>
             \<lparr>isPrimitiveArray = False, isEnumOfPrimitives = False, innerType = unwrapped\<rparr>)"

subsection \<open>Field configuration, dependencies and the helpers outside this file\<close>

text \<open>
  A property value of \<^verbatim>\<open>inputProps\<close>, with its JavaScript truthiness; a missing property
  is \<open>None\<close>.
\<close>

datatype PropValue = PBool bool | PString string

fun truthyProp :: "PropValue option \<Rightarrow> bool" where
  "truthyProp None = False"
| "truthyProp (Some (PBool b)) = b"
| "truthyProp (Some (PString s)) = (s \<noteq> [])"

text \<open>
  \<^verbatim>\<open>fieldType\<close> is the name of a widget or a component of the caller's; \<open>'w\<close> is the type
  of components.
\<close>

datatype 'w FieldType = Named string | Component 'w

text \<open>
  The object found under a key of \<^verbatim>\<open>fieldConfig\<close>. For a leaf key the walker reads its
  \<^verbatim>\<open>fieldType\<close> and \<^verbatim>\<open>inputProps\<close>; for an object key it hands the same object down
  as the nested \<^verbatim>\<open>fieldConfig\<close>, whose entries are \<open>members\<close>.
\<close>

datatype 'w FieldConfig =
  FieldConfig (fieldType: "'w FieldType option")
              (inputProps: "(string \<rightharpoonup> PropValue) option")
              (members: "(string \<times> 'w FieldConfig) list")

text \<open>The empty object \<^verbatim>\<open>{}\<close>.\<close>

definition emptyConfig :: "'w FieldConfig" where
  "emptyConfig = FieldConfig None None []"

text \<open>\<^verbatim>\<open>fieldConfig?.[name]\<close>.\<close>

definition configAt :: "'w FieldConfig option \<Rightarrow> string \<Rightarrow> 'w FieldConfig option" where
  "configAt fieldConfig name =
     (case fieldConfig of None \<Rightarrow> None | Some fc \<Rightarrow> map_of (members fc) name)"

text \<open>What \<^verbatim>\<open>resolveDependencies(dependencies, name, watch)\<close> returns.\<close>

record DependencyResult =
  isHidden :: bool
  isDisabled :: bool
  isRequired :: bool
  overrideOptions :: "string list option"

text \<open>
  The helpers and tables the walker imports from other modules (\<^verbatim>\<open>../utils\<close>,
  \<^verbatim>\<open>../config\<close>, \<^verbatim>\<open>../dependencies\<close>) are parameters: every theorem below holds
  whatever they compute. \<open>resolveDependencies\<close> stands for the call with the
  \<^verbatim>\<open>dependencies\<close> prop and the form's \<^verbatim>\<open>watch\<close> of this render, so a hide effect fires
  for a key exactly when \<open>isHidden\<close> of its result is true; \<open>zodToHtmlInputProps\<close>
  returns the input properties derived from a node, among them \<^verbatim>\<open>required\<close>;
  \<open>DEFAULT_ZOD_HANDLERS\<close> maps a base type tag to a widget name and
  \<open>INPUT_COMPONENTS\<close> a widget name to its component.
\<close>

record 'w Env =
  getBaseSchema :: "ZodType \<Rightarrow> ZodType option"
  getBaseType :: "ZodType \<Rightarrow> string"
  beautifyObjectName :: "string \<Rightarrow> string"
  zodToHtmlInputProps :: "ZodType \<Rightarrow> (string \<rightharpoonup> PropValue)"
  resolveDependencies :: "string \<Rightarrow> DependencyResult"
  DEFAULT_ZOD_HANDLERS :: "string \<rightharpoonup> string"
  INPUT_COMPONENTS :: "string \<rightharpoonup> 'w"

subsection \<open>What the walker returns\<close>

text \<open>\<^verbatim>\<open>parts.join(".")\<close>.\<close>

fun join_dot :: "string list \<Rightarrow> string" where
  "join_dot [] = []"
| "join_dot [x] = x"
| "join_dot (x # y # ys) = x @ ''.'' @ join_dot (y # ys)"

text \<open>
  The props of the nested \<^verbatim>\<open>AutoFormObject\<close> element inside an accordion item (no
  \<^verbatim>\<open>dependencies\<close> are passed down), of an \<^verbatim>\<open>AutoFormArray\<close> element, and what a
  \<^verbatim>\<open>FormField\<close> element's \<^verbatim>\<open>render\<close> callback works with. \<open>InputComponent\<close> is the
  widget the callback resolves; when it is undefined the callback returns an empty
  fragment.
\<close>

record 'w ObjectProps =
  objSchema :: ZodType
  objFieldConfig :: "'w FieldConfig"
  objPath :: "string list"

record 'w ArrayProps =
  arrKey :: string
  arrName :: string
  arrItem :: ZodType
  arrFieldConfig :: "'w FieldConfig"
  arrPath :: "string list"

record 'w FieldProps =
  fieldKey :: string
  fieldLabel :: string
  fieldConfigItem :: "'w FieldConfig"
  zodInputProps :: "string \<rightharpoonup> PropValue"
  fieldIsRequired :: bool
  fieldDisabled :: bool
  zodItem :: ZodType
  InputComponent :: "'w option"

datatype 'w Element =
    AccordionItem string string string "'w ObjectProps"
  | AutoFormArray "'w ArrayProps"
  | FormField "'w FieldProps"

text \<open>
  Whether an entry of the walker's result puts anything on the screen: \<^verbatim>\<open>null\<close> does
  not, and neither does a \<^verbatim>\<open>FormField\<close> whose widget is undefined.
\<close>

fun rendersField :: "'w Element option \<Rightarrow> bool" where
  "rendersField None = False"
| "rendersField (Some (FormField f)) = (InputComponent f \<noteq> None)"
| "rendersField (Some other) = True"

text \<open>A \<^verbatim>\<open>FormField\<close> element that renders the empty fragment.\<close>

fun isDroppedField :: "'w Element option \<Rightarrow> bool" where
  "isDroppedField (Some (FormField f)) = (InputComponent f = None)"
| "isDroppedField other = False"

subsection \<open>The walker\<close>

text \<open>
  The result of the callback that \<^verbatim>\<open>AutoFormObject\<close> maps over \<^verbatim>\<open>Object.keys(shape)\<close>:
  the element returned (\<open>None\<close> is \<^verbatim>\<open>null\<close>), the node \<^verbatim>\<open>shape[name]\<close> as the callback
  leaves it, and the keys it looked up in \<^verbatim>\<open>fieldConfig\<close>, one entry for each
  \<^verbatim>\<open>fieldConfig?.[name]\<close> evaluated.
\<close>

record 'w KeyResult =
  element :: "'w Element option"
  nodeAfter :: ZodType
  configLookups :: "string list"

definition AutoFormObject_key ::
  "'w Env \<Rightarrow> 'w FieldConfig option \<Rightarrow> string list \<Rightarrow> string \<Rightarrow> ZodType \<Rightarrow> 'w KeyResult" where
  "AutoFormObject_key env fieldConfig path name shapeItem =
     (let item = handleIfZodNumber shapeItem;
          zodBaseType = getBaseType env item;
          itemName = (case description item of Some d \<Rightarrow> d | None \<Rightarrow> beautifyObjectName env name);
          key = join_dot (path @ [name]);
          deps = resolveDependencies env name
      in if isHidden deps
         then \<lparr>element = None, nodeAfter = item, configLookups = []\<rparr>
         else if zodBaseType = ''ZodObject''
         then \<lparr>element = Some (AccordionItem name key itemName
                   \<lparr>objSchema = item,
                    objFieldConfig = (case configAt fieldConfig name of
                                        Some c \<Rightarrow> c | None \<Rightarrow> emptyConfig),
                    objPath = path @ [name]\<rparr>),
               nodeAfter = item, configLookups = [name]\<rparr>
         else
           (let info = isZodPrimitiveArray item;
                primitive = (zodBaseType = ''ZodArray''
                             \<and> (isPrimitiveArray info \<or> isEnumOfPrimitives info))
            in if zodBaseType = ''ZodArray'' \<and> \<not> primitive
               then \<lparr>element = Some (AutoFormArray
                         \<lparr>arrKey = key, arrName = name, arrItem = item,
                          arrFieldConfig = (case configAt fieldConfig name of
                                              Some c \<Rightarrow> c | None \<Rightarrow> emptyConfig),
                          arrPath = path @ [name]\<rparr>),
                     nodeAfter = item, configLookups = [name]\<rparr>
               else
                 (let item1 = (if primitive then innerType info else item);
                      base = (case configAt fieldConfig name of
                                Some c \<Rightarrow> c | None \<Rightarrow> emptyConfig);
                      overrideFieldConfig =
                        (if primitive
                         then Some (FieldConfig (Some (Named ''selectmultiinput''))
                                      (Some ((case inputProps base of
                                                None \<Rightarrow> Map.empty | Some ip \<Rightarrow> ip)
                                             (''creatable'' \<mapsto> PBool (\<not> isEnumOfPrimitives info))))
                                      (members base))
                         else None);
                      fieldConfigItem = (case overrideFieldConfig of
                                           Some c \<Rightarrow> c | None \<Rightarrow> base);
                      zodInputProps = zodToHtmlInputProps env item1;
                      isRequired = (isRequired deps
                                    \<or> truthyProp (zodInputProps ''required'')
                                    \<or> truthyProp (case inputProps fieldConfigItem of
                                                     None \<Rightarrow> None | Some ip \<Rightarrow> ip ''required''));
                      item2 = (case overrideOptions deps of
                                 Some opts \<Rightarrow> ZodType None (ZodEnum opts)
                               | None \<Rightarrow> item1);
                      inputComponent =
                        (case fieldType fieldConfigItem of
                           Some (Component w) \<Rightarrow> Some w
                         | Some (Named n) \<Rightarrow> INPUT_COMPONENTS env n
                         | None \<Rightarrow>
                             (case DEFAULT_ZOD_HANDLERS env zodBaseType of
                                Some n \<Rightarrow> INPUT_COMPONENTS env n
                              | None \<Rightarrow> INPUT_COMPONENTS env ''fallback''))
                  in \<lparr>element = Some (FormField
                         \<lparr>fieldKey = key, fieldLabel = itemName,
                          fieldConfigItem = fieldConfigItem,
                          zodInputProps = zodInputProps,
                          fieldIsRequired = isRequired,
                          fieldDisabled =
                            (truthyProp (case inputProps fieldConfigItem of
                                           None \<Rightarrow> None | Some ip \<Rightarrow> ip ''disabled'')
                             \<or> isDisabled deps),
                          zodItem = item2,
                          InputComponent = inputComponent\<rparr>),
                      nodeAfter = item,
                      configLookups = (if primitive then [name, name] else [name])\<rparr>)))"

text \<open>
  \<^verbatim>\<open>AutoFormObject\<close> itself: \<open>None\<close> is the \<^verbatim>\<open>null\<close> it returns when there is no schema or
  no shape; otherwise the accordion's children in key order, the shape as the walk
  leaves it, and all the lookups made.
\<close>

record 'w WalkResult =
  children :: "'w Element option list"
  shapeAfter :: "(string \<times> ZodType) list"
  lookups :: "string list"

definition AutoFormObject ::
  "'w Env \<Rightarrow> ZodType option \<Rightarrow> 'w FieldConfig option \<Rightarrow> string list \<Rightarrow> 'w WalkResult option" where
  "AutoFormObject env schema fieldConfig path =
     (case schema of
        None \<Rightarrow> None
      | Some s \<Rightarrow>
          (case (case getBaseSchema env s of
                   None \<Rightarrow> None
                 | Some b \<Rightarrow> (case zodDef b of ZodObject shape \<Rightarrow> Some shape | other \<Rightarrow> None)) of
             None \<Rightarrow> None
           | Some shape \<Rightarrow>
               (let results = map (\<lambda>(name, item). AutoFormObject_key env fieldConfig path name item) shape
                in Some \<lparr>children = map element results,
                         shapeAfter = map (\<lambda>((name, item), r). (name, nodeAfter r)) (zip shape results),
                         lookups = concat (map configLookups results)\<rparr>)))"

subsection \<open>The base-type helpers, from their description\<close>

text \<open>
  Modelled from the spec: \<^verbatim>\<open>getBaseSchema\<close> and \<^verbatim>\<open>getBaseType\<close> of the module \<^verbatim>\<open>../utils\<close>,
  whose text is missing. The specification says of them: "Resolve the declared type
  node, stripping optional/default wrappers to obtain a base type tag", and that
  unwrapping is transitive. They are the base-type helpers of the example environment
  below; the theorems about the walker hold for any helpers.
\<close>

fun getBaseSchema_spec :: "ZodType \<Rightarrow> ZodType option" where
  "getBaseSchema_spec (ZodType d (ZodOptional t)) = getBaseSchema_spec t"
| "getBaseSchema_spec (ZodType d (ZodDefault t)) = getBaseSchema_spec t"
| "getBaseSchema_spec t = Some t"

definition getBaseType_spec :: "ZodType \<Rightarrow> string" where
  "getBaseType_spec t = (case getBaseSchema_spec t of Some b \<Rightarrow> typeName b | None \<Rightarrow> [])"

subsection \<open>An example environment\<close>

text \<open>
  A concrete set of helpers and tables for the worked examples: labels are the key
  itself, a node is required unless it is wrapped, one dependency rule hides the key
  \<open>secret\<close>, and four widgets are registered (numbered 1 to 4).
\<close>

definition exampleEnv :: "nat Env" where
  "exampleEnv =
     \<lparr>getBaseSchema = getBaseSchema_spec,
      getBaseType = getBaseType_spec,
      beautifyObjectName = (\<lambda>name. name),
      zodToHtmlInputProps = (\<lambda>item. [''required'' \<mapsto> PBool (def_innerType item = None)]),
      resolveDependencies = (\<lambda>name. \<lparr>isHidden = (name = ''secret''), isDisabled = False,
                                       isRequired = False, overrideOptions = None\<rparr>),
      DEFAULT_ZOD_HANDLERS = [''ZodString'' \<mapsto> ''string'', ''ZodNumber'' \<mapsto> ''number''],
      INPUT_COMPONENTS = [''string'' \<mapsto> 1, ''number'' \<mapsto> 2, ''selectmultiinput'' \<mapsto> 3,
                          ''fallback'' \<mapsto> 4]\<rparr>"

text \<open>
  A fold for the worked examples: it lowers the letters \<open>A\<close> to \<open>Z\<close> (the codes 65 to
  90) and leaves every other character, which is what \<^verbatim>\<open>toLowerCase\<close> does to a string of
  ASCII characters.
\<close>

definition lower_char :: "char \<Rightarrow> char" where
  "lower_char c = (let n = (of_char c :: nat) in if 65 \<le> n \<and> n \<le> 90 then char_of (n + 32) else c)"

definition asciiLowerCase :: "string \<Rightarrow> string" where
  "asciiLowerCase s = map lower_char s"

section \<open>Properties of the widget\<close>

lemma str_includes_sublist: "str_includes s q = sublist q s"
  by (induction s) (auto simp: sublist_Cons_right)

text \<open>
  C1. Selecting a candidate, the normal one or the "Create ..." one, when the selection
  already holds \<open>maxSelected\<close> entries or more: the state is left as it was (selection and
  query text), and the only effect is one call of the max-selected callback the host
  supplied, with the current count. Below the bound the option is appended at the end
  of the selection and the query text is cleared.
\<close>

theorem select_bounded_by_maxSelected:
  assumes "onMaxSelected props = Some notify"
  shows "(maxSelected props \<le> int (length (selected st)) \<longrightarrow>
            onSelect props st opt = (st, [Callback (notify (length (selected st)))])
          \<and> CreatableItem_onSelect props st v = (st, [Callback (notify (length (selected st)))]))
       \<and> (int (length (selected st)) < maxSelected props \<longrightarrow>
            selected (fst (onSelect props st opt)) = selected st @ [opt]
          \<and> inputValue (fst (onSelect props st opt)) = []
          \<and> selected (fst (CreatableItem_onSelect props st v))
              = selected st @ [\<lparr>value = v, label = v, disable = None, fixed = None\<rparr>]
          \<and> inputValue (fst (CreatableItem_onSelect props st v)) = [])"
  using assms by (simp add: onSelect_def CreatableItem_onSelect_def optCall_def Let_def)

theorem select_bounded_by_maxSelected_witness:
  "onSelect \<lparr>maxSelected = 1, onMaxSelected = Some (\<lambda>n. n + 100), onChange = None, onSearch = None,
             creatable = True, triggerSearchOnFocus = False\<rparr>
     \<lparr>selected = [\<lparr>value = ''a'', label = ''A'', disable = None, fixed = None\<rparr>], options = [],
      inputValue = ''b'', debouncedSearchTerm = ''b'', isLoading = False, open = True\<rparr>
     \<lparr>value = ''b'', label = ''B'', disable = None, fixed = None\<rparr>
   = (\<lparr>selected = [\<lparr>value = ''a'', label = ''A'', disable = None, fixed = None\<rparr>], options = [],
      inputValue = ''b'', debouncedSearchTerm = ''b'', isLoading = False, open = True\<rparr>,
      [Callback (101::nat)])
  \<and> selected (fst (CreatableItem_onSelect
        \<lparr>maxSelected = 2, onMaxSelected = Some (\<lambda>n. n + 100), onChange = None, onSearch = None,
             creatable = True, triggerSearchOnFocus = False\<rparr>
        \<lparr>selected = [\<lparr>value = ''a'', label = ''A'', disable = None, fixed = None\<rparr>], options = [],
      inputValue = ''b'', debouncedSearchTerm = ''b'', isLoading = False, open = True\<rparr> ''new''))
    = [\<lparr>value = ''a'', label = ''A'', disable = None, fixed = None\<rparr>,
       \<lparr>value = ''new'', label = ''new'', disable = None, fixed = None\<rparr>]"
  using select_bounded_by_maxSelected
          [of "\<lparr>maxSelected = 1, onMaxSelected = Some (\<lambda>n. n + 100), onChange = None, onSearch = None,
             creatable = True, triggerSearchOnFocus = False\<rparr>" "\<lambda>n. n + 100"
              "\<lparr>selected = [\<lparr>value = ''a'', label = ''A'', disable = None, fixed = None\<rparr>], options = [],
      inputValue = ''b'', debouncedSearchTerm = ''b'', isLoading = False, open = True\<rparr>"
              "\<lparr>value = ''b'', label = ''B'', disable = None, fixed = None\<rparr>" "''new''"]
        select_bounded_by_maxSelected
          [of "\<lparr>maxSelected = 2, onMaxSelected = Some (\<lambda>n. n + 100), onChange = None, onSearch = None,
             creatable = True, triggerSearchOnFocus = False\<rparr>" "\<lambda>n. n + 100"
              "\<lparr>selected = [\<lparr>value = ''a'', label = ''A'', disable = None, fixed = None\<rparr>], options = [],
      inputValue = ''b'', debouncedSearchTerm = ''b'', isLoading = False, open = True\<rparr>"
              "\<lparr>value = ''b'', label = ''B'', disable = None, fixed = None\<rparr>" "''new''"]
  by simp

text \<open>
  C5. Clear-all leaves exactly the entries whose \<^verbatim>\<open>fixed\<close> flag is true, in their order,
  and the change callback the host supplied is called once, with that same list.
\<close>

theorem clear_all_keeps_fixed:
  assumes "onChange props = Some change"
  shows "clearAll_onClick props st =
           (st\<lparr>selected := filter (\<lambda>s. truthy (fixed s)) (selected st)\<rparr>,
            [Callback (change (filter (\<lambda>s. truthy (fixed s)) (selected st)))])
       \<and> subseq (selected (fst (clearAll_onClick props st))) (selected st)
       \<and> (\<forall>s \<in> set (selected st).
            (s \<in> set (selected (fst (clearAll_onClick props st)))) = (fixed s = Some True))"
  using assms by (auto simp: clearAll_onClick_def optCall_def truthy_def)

theorem clear_all_keeps_fixed_witness:
  "clearAll_onClick
      \<lparr>maxSelected = 5, onMaxSelected = None, onChange = Some (map value),
       onSearch = None, creatable = False, triggerSearchOnFocus = False\<rparr>
      \<lparr>selected = [\<lparr>value = ''a'', label = ''a'', disable = None, fixed = Some True\<rparr>,
                   \<lparr>value = ''b'', label = ''b'', disable = None, fixed = None\<rparr>],
       options = [], inputValue = [], debouncedSearchTerm = [], isLoading = False, open = False\<rparr>
   = (\<lparr>selected = [\<lparr>value = ''a'', label = ''a'', disable = None, fixed = Some True\<rparr>],
       options = [], inputValue = [], debouncedSearchTerm = [], isLoading = False, open = False\<rparr>,
      [Callback [''a'']])"
  using clear_all_keeps_fixed
          [of "\<lparr>maxSelected = 5, onMaxSelected = None, onChange = Some (map value),
                onSearch = None, creatable = False, triggerSearchOnFocus = False\<rparr>"
              "map value"
              "\<lparr>selected = [\<lparr>value = ''a'', label = ''a'', disable = None, fixed = Some True\<rparr>,
                   \<lparr>value = ''b'', label = ''b'', disable = None, fixed = None\<rparr>],
                options = [], inputValue = [], debouncedSearchTerm = [], isLoading = False,
                open = False\<rparr>"]
  by (simp add: truthy_def)

lemma filter_last_value_distinct:
  assumes "distinct (map f xs)" and "xs \<noteq> []"
  shows "filter (\<lambda>s. f s \<noteq> f (last xs)) xs = butlast xs"
proof -
  obtain ys y where xs: "xs = ys @ [y]"
    using assms(2) by (cases xs rule: rev_cases) auto
  have "\<forall>s\<in>set ys. f s \<noteq> f y"
    using assms(1) unfolding xs by (force simp: image_iff)
  then have "filter (\<lambda>s. f s \<noteq> f y) ys = ys"
    by (simp add: filter_id_conv)
  then show ?thesis
    unfolding xs by simp
qed

text \<open>
  C6, as the code has it. \<^verbatim>\<open>handleUnselect\<close> removes by value: Backspace or Delete on an
  empty query removes every entry whose value equals that of the last entry, unless the
  last entry is fixed (then nothing changes). When the selected values are pairwise
  distinct this is exactly the last entry. With a non-empty query nothing changes.
\<close>

theorem backspace_removes_by_value:
  assumes "key = ''Backspace'' \<or> key = ''Delete''" and "selected st \<noteq> []"
  shows "fst (handleKeyDown props (Some []) key st) =
           (if fixed (last (selected st)) = Some True then st
            else st\<lparr>selected := filter (\<lambda>s. value s \<noteq> value (last (selected st))) (selected st)\<rparr>)
       \<and> (distinct (map value (selected st)) \<and> fixed (last (selected st)) \<noteq> Some True \<longrightarrow>
            selected (fst (handleKeyDown props (Some []) key st)) = butlast (selected st))
       \<and> (q \<noteq> [] \<longrightarrow> fst (handleKeyDown props (Some q) key st) = st)"
  using assms
  by (auto simp: handleKeyDown_def handleUnselect_def truthy_def Let_def filter_last_value_distinct)

theorem backspace_removes_by_value_witness:
  "selected (fst (handleKeyDown
      \<lparr>maxSelected = 5, onMaxSelected = None :: (nat \<Rightarrow> unit) option, onChange = None,
       onSearch = None, creatable = False, triggerSearchOnFocus = False\<rparr>
      (Some []) ''Backspace''
      \<lparr>selected = [\<lparr>value = ''a'', label = ''a'', disable = None, fixed = Some True\<rparr>,
                   \<lparr>value = ''b'', label = ''b'', disable = None, fixed = None\<rparr>],
       options = [], inputValue = [], debouncedSearchTerm = [], isLoading = False, open = True\<rparr>))
   = [\<lparr>value = ''a'', label = ''a'', disable = None, fixed = Some True\<rparr>]"
  using backspace_removes_by_value
          [of "''Backspace''"
              "\<lparr>selected = [\<lparr>value = ''a'', label = ''a'', disable = None, fixed = Some True\<rparr>,
                   \<lparr>value = ''b'', label = ''b'', disable = None, fixed = None\<rparr>],
                options = [], inputValue = [], debouncedSearchTerm = [], isLoading = False,
                open = True\<rparr>"
              "\<lparr>maxSelected = 5, onMaxSelected = None :: (nat \<Rightarrow> unit) option, onChange = None,
                onSearch = None, creatable = False, triggerSearchOnFocus = False\<rparr>" "''x''"]
  by simp

text \<open>
  C6 as stated fails when a value occurs twice: both entries go, where removing exactly
  the most recent one would leave the first.
\<close>

theorem backspace_duplicate_value_counterexample:
  "selected (fst (handleKeyDown
      \<lparr>maxSelected = 3, onMaxSelected = None :: (nat \<Rightarrow> unit) option, onChange = None,
       onSearch = None, creatable = True, triggerSearchOnFocus = False\<rparr>
      (Some []) ''Backspace''
      \<lparr>selected = [\<lparr>value = ''a'', label = ''a'', disable = None, fixed = None\<rparr>,
                   \<lparr>value = ''a'', label = ''a'', disable = None, fixed = None\<rparr>],
       options = [], inputValue = [], debouncedSearchTerm = [], isLoading = False, open = True\<rparr>))
    = []
   \<and> butlast [\<lparr>value = ''a'', label = ''a'', disable = None, fixed = None\<rparr>,
               \<lparr>value = ''a'', label = ''a'', disable = None, fixed = None\<rparr>]
    = [\<lparr>value = ''a'', label = ''a'', disable = None, fixed = None\<rparr>]"
  by (simp add: handleKeyDown_def handleUnselect_def truthy_def)

lemma str_includes_empty: "str_includes s [] = True"
  by (simp add: str_includes_sublist)

lemma find_value_None: "(find (\<lambda>p. value p = v) picked = None) = (v \<notin> value ` set picked)"
  by (auto simp: find_None_iff)

text \<open>
  C7. The candidate list is the pool, in order, restricted to the options whose value
  is not the value of a selected entry (compared as strings, case-sensitively) and,
  when no async search is configured, whose lower-cased value contains the lower-cased
  debounced query; with an async search configured the query plays no part. Each
  candidate is given by its value and label. This holds for every lower-casing
  function that maps the empty string to itself, as \<^verbatim>\<open>toLowerCase\<close> does.
\<close>

theorem candidates_exclude_selected_and_filter_query:
  assumes "toLowerCase [] = []"
  shows "selectables toLowerCase props st =
     map (\<lambda>opt. \<lparr>value = value opt, label = label opt, disable = None, fixed = None\<rparr>)
       (filter (\<lambda>opt. value opt \<notin> value ` set (selected st)
                     \<and> (onSearch props = None \<longrightarrow>
                          sublist (toLowerCase (debouncedSearchTerm st)) (toLowerCase (value opt))))
          (options st))"
  using assms
  by (cases "onSearch props")
     (simp_all add: selectables_def removePickedOption_def find_value_None str_includes_sublist
        conj_commute)

text \<open>
  The spec's example, with two more options in the pool and the query \<open>Y\<close>: the
  selected \<open>x\<close> and the option \<open>no\<close> are left out, \<open>y\<close> and \<open>Yes\<close> stay; and the same
  pool with an async search configured, where \<open>no\<close> stays too.
\<close>

theorem candidates_exclude_selected_and_filter_query_witness:
  "asciiLowerCase [] = []
   \<and> selectables asciiLowerCase
      \<lparr>maxSelected = 5, onMaxSelected = None :: (nat \<Rightarrow> unit) option, onChange = None,
       onSearch = None, creatable = False, triggerSearchOnFocus = False\<rparr>
      \<lparr>selected = [\<lparr>value = ''x'', label = ''x'', disable = None, fixed = None\<rparr>],
       options = [\<lparr>value = ''x'', label = ''x'', disable = None, fixed = None\<rparr>,
                  \<lparr>value = ''y'', label = ''y'', disable = Some True, fixed = None\<rparr>,
                  \<lparr>value = ''Yes'', label = ''Yes'', disable = None, fixed = None\<rparr>,
                  \<lparr>value = ''no'', label = ''no'', disable = None, fixed = None\<rparr>],
       inputValue = ''Y'', debouncedSearchTerm = ''Y'', isLoading = False, open = True\<rparr>
     = [\<lparr>value = ''y'', label = ''y'', disable = None, fixed = None\<rparr>,
        \<lparr>value = ''Yes'', label = ''Yes'', disable = None, fixed = None\<rparr>]
   \<and> selectables asciiLowerCase
      \<lparr>maxSelected = 5, onMaxSelected = None :: (nat \<Rightarrow> unit) option, onChange = None,
       onSearch = Some (\<lambda>q. Resolved None), creatable = False, triggerSearchOnFocus = False\<rparr>
      \<lparr>selected = [\<lparr>value = ''x'', label = ''x'', disable = None, fixed = None\<rparr>],
       options = [\<lparr>value = ''x'', label = ''x'', disable = None, fixed = None\<rparr>,
                  \<lparr>value = ''y'', label = ''y'', disable = Some True, fixed = None\<rparr>,
                  \<lparr>value = ''Yes'', label = ''Yes'', disable = None, fixed = None\<rparr>,
                  \<lparr>value = ''no'', label = ''no'', disable = None, fixed = None\<rparr>],
       inputValue = ''Y'', debouncedSearchTerm = ''Y'', isLoading = False, open = True\<rparr>
     = [\<lparr>value = ''y'', label = ''y'', disable = None, fixed = None\<rparr>,
        \<lparr>value = ''Yes'', label = ''Yes'', disable = None, fixed = None\<rparr>,
        \<lparr>value = ''no'', label = ''no'', disable = None, fixed = None\<rparr>]"
proof -
  have h: "asciiLowerCase [] = []"
    by (simp add: asciiLowerCase_def)
  show ?thesis
    using h
      candidates_exclude_selected_and_filter_query
        [of asciiLowerCase
            "\<lparr>maxSelected = 5, onMaxSelected = None :: (nat \<Rightarrow> unit) option, onChange = None,
              onSearch = None, creatable = False, triggerSearchOnFocus = False\<rparr>"
            "\<lparr>selected = [\<lparr>value = ''x'', label = ''x'', disable = None, fixed = None\<rparr>],
              options = [\<lparr>value = ''x'', label = ''x'', disable = None, fixed = None\<rparr>,
                         \<lparr>value = ''y'', label = ''y'', disable = Some True, fixed = None\<rparr>,
                         \<lparr>value = ''Yes'', label = ''Yes'', disable = None, fixed = None\<rparr>,
                         \<lparr>value = ''no'', label = ''no'', disable = None, fixed = None\<rparr>],
              inputValue = ''Y'', debouncedSearchTerm = ''Y'', isLoading = False, open = True\<rparr>", OF h]
      candidates_exclude_selected_and_filter_query
        [of asciiLowerCase
            "\<lparr>maxSelected = 5, onMaxSelected = None :: (nat \<Rightarrow> unit) option, onChange = None,
              onSearch = Some (\<lambda>q. Resolved None), creatable = False, triggerSearchOnFocus = False\<rparr>"
            "\<lparr>selected = [\<lparr>value = ''x'', label = ''x'', disable = None, fixed = None\<rparr>],
              options = [\<lparr>value = ''x'', label = ''x'', disable = None, fixed = None\<rparr>,
                         \<lparr>value = ''y'', label = ''y'', disable = Some True, fixed = None\<rparr>,
                         \<lparr>value = ''Yes'', label = ''Yes'', disable = None, fixed = None\<rparr>,
                         \<lparr>value = ''no'', label = ''no'', disable = None, fixed = None\<rparr>],
              inputValue = ''Y'', debouncedSearchTerm = ''Y'', isLoading = False, open = True\<rparr>", OF h]
    by (simp add: asciiLowerCase_def lower_char_def char_of_def bit_Suc_0_iff sublist_Cons_right)
qed

text \<open>
  C10. Every candidate produced by \<^verbatim>\<open>removePickedOption\<close> has neither a \<^verbatim>\<open>disable\<close> nor
  a \<^verbatim>\<open>fixed\<close> property: the rendered item is never disabled, and selecting it below the
  bound appends an entry that has only a value and a label.
\<close>

theorem candidates_carry_no_flags:
  assumes "CommandGroupContent_item (removePickedOption toLowerCase opts picked q) i = Some item"
  shows "cmdDisabled item = None
       \<and> disable (cmdOption item) = None \<and> fixed (cmdOption item) = None
       \<and> (\<forall>c \<in> set (removePickedOption toLowerCase opts picked q). disable c = None \<and> fixed c = None)
       \<and> (int (length (selected st)) < maxSelected props \<longrightarrow>
            selected (fst (onSelect props st (cmdOption item)))
              = selected st @ [\<lparr>value = cmdValue item, label = cmdLabel item,
                                disable = None, fixed = None\<rparr>])"
proof -
  have flags: "\<forall>c \<in> set (removePickedOption toLowerCase opts picked q). disable c = None \<and> fixed c = None"
    by (auto simp: removePickedOption_def)
  from assms have i: "i < length (removePickedOption toLowerCase opts picked q)"
    and item: "item = \<lparr>cmdValue = value (removePickedOption toLowerCase opts picked q ! i),
                       cmdDisabled = disable (removePickedOption toLowerCase opts picked q ! i),
                       cmdLabel = label (removePickedOption toLowerCase opts picked q ! i),
                       cmdOption = removePickedOption toLowerCase opts picked q ! i\<rparr>"
    by (auto simp: CommandGroupContent_item_def Let_def split: if_splits)
  from i flags have c: "disable (removePickedOption toLowerCase opts picked q ! i) = None"
    "fixed (removePickedOption toLowerCase opts picked q ! i) = None"
    by (auto simp: all_set_conv_all_nth)
  show ?thesis
    using flags c by (simp add: item onSelect_def Let_def)
qed

theorem candidates_carry_no_flags_witness:
  "CommandGroupContent_item
      (removePickedOption asciiLowerCase
         [\<lparr>value = ''x'', label = ''X'', disable = Some True, fixed = Some True\<rparr>] [] []) 0
     = Some \<lparr>cmdValue = ''x'', cmdDisabled = None, cmdLabel = ''X'',
             cmdOption = \<lparr>value = ''x'', label = ''X'', disable = None, fixed = None\<rparr>\<rparr>
   \<and> selected (fst (onSelect
        \<lparr>maxSelected = 5, onMaxSelected = None :: (nat \<Rightarrow> unit) option, onChange = None,
         onSearch = None, creatable = False, triggerSearchOnFocus = False\<rparr>
        \<lparr>selected = [], options = [\<lparr>value = ''x'', label = ''X'', disable = Some True, fixed = Some True\<rparr>],
         inputValue = [], debouncedSearchTerm = [], isLoading = False, open = True\<rparr>
        \<lparr>value = ''x'', label = ''X'', disable = None, fixed = None\<rparr>))
     = [\<lparr>value = ''x'', label = ''X'', disable = None, fixed = None\<rparr>]"
proof -
  have h: "CommandGroupContent_item
      (removePickedOption asciiLowerCase
         [\<lparr>value = ''x'', label = ''X'', disable = Some True, fixed = Some True\<rparr>] [] []) 0
     = Some \<lparr>cmdValue = ''x'', cmdDisabled = None, cmdLabel = ''X'',
             cmdOption = \<lparr>value = ''x'', label = ''X'', disable = None, fixed = None\<rparr>\<rparr>"
    by (simp add: CommandGroupContent_item_def removePickedOption_def asciiLowerCase_def)
  show ?thesis
    using h candidates_carry_no_flags
            [OF h,
             of "\<lparr>selected = [], options = [\<lparr>value = ''x'', label = ''X'', disable = Some True, fixed = Some True\<rparr>],
                  inputValue = [], debouncedSearchTerm = [], isLoading = False, open = True\<rparr>"
                "\<lparr>maxSelected = 5, onMaxSelected = None :: (nat \<Rightarrow> unit) option, onChange = None,
                  onSearch = None, creatable = False, triggerSearchOnFocus = False\<rparr>"]
    by simp
qed

text \<open>
  The two ways out of \<^verbatim>\<open>doSearch\<close>: a resolved search replaces the pool and resets the
  loading flag; a rejected one leaves the flag set.
\<close>

lemma doSearch_resolved:
  assumes "onSearch props = Some f" and "f (debouncedSearchTerm st) = Resolved res"
  shows "doSearch props st
           = Inr (st\<lparr>options := (case res of None \<Rightarrow> [] | Some r \<Rightarrow> r), isLoading := False\<rparr>)"
  using assms by (simp add: doSearch_def)

lemma doSearch_rejected:
  assumes "onSearch props = Some f" and "f (debouncedSearchTerm st) = Rejected reason"
  shows "doSearch props st = Inl (reason, st\<lparr>isLoading := True\<rparr>)"
  using assms by (simp add: doSearch_def)

text \<open>
  C4. The code at a rejected search: the effect runs with the panel open and the query
  \<open>a\<close>, the caller's \<^verbatim>\<open>onSearch\<close> rejects, and the state left behind has
  \<^verbatim>\<open>isLoading\<close> true.
\<close>

theorem rejected_search_leaves_loading:
  "exec \<lparr>maxSelected = 3, onMaxSelected = None :: (nat \<Rightarrow> unit) option, onChange = None,
          onSearch = Some (\<lambda>q. Rejected ''offline''), creatable = False,
          triggerSearchOnFocus = False\<rparr>
        \<lparr>selected = [], options = [], inputValue = ''a'', debouncedSearchTerm = ''a'',
         isLoading = False, open = True\<rparr>
   = Inl (''offline'',
          \<lparr>selected = [], options = [], inputValue = ''a'', debouncedSearchTerm = ''a'',
           isLoading = True, open = True\<rparr>)"
  by (simp add: exec_def doSearch_def)


section \<open>Properties of the schema walker\<close>

lemma unwrapInnerType_wrapper [simp]:
  "unwrapInnerType (ZodType d (ZodOptional t)) = unwrapInnerType t"
  "unwrapInnerType (ZodType d (ZodDefault t)) = unwrapInnerType t"
  "unwrapInnerType (ZodType d (ZodOther s (Some t))) = unwrapInnerType t"
  by (simp_all add: unwrapInnerType.simps [of "ZodType d (ZodOptional t)"]
        unwrapInnerType.simps [of "ZodType d (ZodDefault t)"]
        unwrapInnerType.simps [of "ZodType d (ZodOther s (Some t))"])

lemma unwrapInnerType_base [simp]:
  "def_innerType t = None \<Longrightarrow> unwrapInnerType t = t"
  by (simp add: unwrapInnerType.simps [of t])

text \<open>
  C9. The loop that strips the wrappers is idempotent, and what it returns has no
  inner type left: it is neither an optional nor a default wrapper.
\<close>

theorem unwrap_idempotent:
  "unwrapInnerType (unwrapInnerType x) = unwrapInnerType x
   \<and> def_innerType (unwrapInnerType x) = None
   \<and> (\<forall>d t. unwrapInnerType x \<noteq> ZodType d (ZodOptional t)
           \<and> unwrapInnerType x \<noteq> ZodType d (ZodDefault t))"
proof -
  have inner: "def_innerType (unwrapInnerType x) = None"
  proof (induction x rule: unwrapInnerType.induct)
    case (1 t)
    then show ?case
      by (cases "def_innerType t") (simp_all add: unwrapInnerType.simps [of t])
  qed
  then have "unwrapInnerType (unwrapInnerType x) = unwrapInnerType x"
    by simp
  moreover have "\<forall>d t. unwrapInnerType x \<noteq> ZodType d (ZodOptional t)
                     \<and> unwrapInnerType x \<noteq> ZodType d (ZodDefault t)"
    using inner by auto
  ultimately show ?thesis
    using inner by simp
qed

theorem unwrap_idempotent_witness:
  "unwrapInnerType (ZodType None (ZodDefault (ZodType (Some ''tags'') (ZodOptional
       (ZodType None (ZodArray (ZodType None ZodString)))))))
     = ZodType None (ZodArray (ZodType None ZodString))
   \<and> unwrapInnerType (unwrapInnerType (ZodType None (ZodDefault (ZodType (Some ''tags'') (ZodOptional
       (ZodType None (ZodArray (ZodType None ZodString))))))))
     = ZodType None (ZodArray (ZodType None ZodString))"
  using unwrap_idempotent [of "ZodType None (ZodDefault (ZodType (Some ''tags'') (ZodOptional
       (ZodType None (ZodArray (ZodType None ZodString))))))"]
  by simp

lemma key_element_None_iff:
  "(element (AutoFormObject_key env fieldConfig path name item) = None)
     = isHidden (resolveDependencies env name)"
  by (simp add: AutoFormObject_key_def Let_def)

lemma renders_or_dropped:
  "(if rendersField e then 1 else 0) + (if isDroppedField e then 1 else 0)
     = (if e \<noteq> None then 1 else (0::nat))"
  by (cases e rule: rendersField.cases) auto

lemma count_children:
  "length (filter (\<lambda>e. e \<noteq> None)
       (map (\<lambda>(name, item). element (AutoFormObject_key env fieldConfig path name item)) shape))
     = length (filter (\<lambda>(name, item). \<not> isHidden (resolveDependencies env name)) shape)"
proof (induction shape)
  case Nil
  then show ?case by simp
next
  case (Cons kv shape)
  obtain name item where kv: "kv = (name, item)"
    by (cases kv)
  show ?case
    using Cons.IH key_element_None_iff [of env fieldConfig path name item]
    by (cases "isHidden (resolveDependencies env name)") (simp_all add: kv)
qed

lemma count_rendered:
  "length (filter rendersField es) + length (filter isDroppedField es)
     = length (filter (\<lambda>e. e \<noteq> None) es)"
proof (induction es)
  case Nil
  then show ?case by simp
next
  case (Cons e es)
  then show ?case
    using renders_or_dropped [of e] by (simp split: if_splits)
qed

text \<open>
  C2, as the code has it. For an object-shaped schema the walker returns one entry per
  key of the shape, in order, and the entry is \<^verbatim>\<open>null\<close> exactly for the keys a dependency
  rule hides: the number of elements equals the number of keys not hidden. An element
  is an accordion item, an array sub-form or a form field; a form field whose widget
  is undefined renders the empty fragment, so the number of entries that render
  something is the number of keys not hidden less the number of such fields.
\<close>

theorem walker_field_count:
  assumes "getBaseSchema env s = Some b" and "zodDef b = ZodObject shape"
  shows "\<exists>r. AutoFormObject env (Some s) fieldConfig path = Some r
           \<and> length (children r) = length shape
           \<and> length (filter (\<lambda>e. e \<noteq> None) (children r))
               = length (filter (\<lambda>(name, item). \<not> isHidden (resolveDependencies env name)) shape)
           \<and> length (filter rendersField (children r)) + length (filter isDroppedField (children r))
               = length (filter (\<lambda>(name, item). \<not> isHidden (resolveDependencies env name)) shape)"
proof -
  let ?r = "\<lparr>children = map (\<lambda>(name, item). element (AutoFormObject_key env fieldConfig path name item)) shape,
            shapeAfter = map (\<lambda>((name, item), r). (name, nodeAfter r))
               (zip shape (map (\<lambda>(name, item). AutoFormObject_key env fieldConfig path name item) shape)),
            lookups = concat (map configLookups
               (map (\<lambda>(name, item). AutoFormObject_key env fieldConfig path name item) shape))\<rparr>"
  have r: "AutoFormObject env (Some s) fieldConfig path = Some ?r"
    using assms by (simp add: AutoFormObject_def Let_def comp_def case_prod_unfold)
  have "length (children ?r) = length shape"
    by simp
  moreover have "length (filter (\<lambda>e. e \<noteq> None) (children ?r))
       = length (filter (\<lambda>(name, item). \<not> isHidden (resolveDependencies env name)) shape)"
    using count_children [of env fieldConfig path shape] by simp
  moreover have "length (filter rendersField (children ?r)) + length (filter isDroppedField (children ?r))
       = length (filter (\<lambda>(name, item). \<not> isHidden (resolveDependencies env name)) shape)"
    using count_rendered [of "children ?r"] count_children [of env fieldConfig path shape] by simp
  ultimately show ?thesis
    using r by blast
qed

theorem walker_field_count_witness:
  "map_option (\<lambda>r. (map rendersField (children r), map isDroppedField (children r)))
     (AutoFormObject exampleEnv
        (Some (ZodType None (ZodObject
           [(''name'', ZodType None ZodString),
            (''secret'', ZodType None ZodString),
            (''colour'', ZodType None ZodString)])))
        (Some (FieldConfig None None
           [(''colour'', FieldConfig (Some (Named ''colorpicker'')) None [])]))
        [])
   = Some ([True, False, False], [False, False, True])"
  using walker_field_count
          [of exampleEnv
              "ZodType None (ZodObject
                 [(''name'', ZodType None ZodString),
                  (''secret'', ZodType None ZodString),
                  (''colour'', ZodType None ZodString)])"
              "ZodType None (ZodObject
                 [(''name'', ZodType None ZodString),
                  (''secret'', ZodType None ZodString),
                  (''colour'', ZodType None ZodString)])"
              "[(''name'', ZodType None ZodString),
                (''secret'', ZodType None ZodString),
                (''colour'', ZodType None ZodString)]"
              "Some (FieldConfig None None
                 [(''colour'', FieldConfig (Some (Named ''colorpicker'')) None [])])" "[]"]
  by (simp add: exampleEnv_def AutoFormObject_def AutoFormObject_key_def isZodPrimitiveArray_def
        handleIfZodNumber_def getBaseType_spec_def configAt_def emptyConfig_def Let_def)

text \<open>
  C2 as stated fails where a key that is not hidden names a widget that is not
  registered: its field renders nothing, and no hide effect fired for it.
\<close>

theorem unresolved_widget_counterexample:
  "map_option (\<lambda>r. map rendersField (children r))
     (AutoFormObject exampleEnv
        (Some (ZodType None (ZodObject [(''colour'', ZodType None ZodString)])))
        (Some (FieldConfig None None
           [(''colour'', FieldConfig (Some (Named ''colorpicker'')) None [])]))
        [])
   = Some [False]
   \<and> \<not> isHidden (resolveDependencies exampleEnv ''colour'')"
  by (simp add: exampleEnv_def AutoFormObject_def AutoFormObject_key_def isZodPrimitiveArray_def
        handleIfZodNumber_def getBaseType_spec_def configAt_def emptyConfig_def Let_def)

text \<open>
  C3, as the code has it. For a key that a dependency rule hides the walker returns
  \<^verbatim>\<open>null\<close> and evaluates no \<^verbatim>\<open>fieldConfig\<close> lookup (so the result does not depend on
  \<^verbatim>\<open>fieldConfig\<close>). The rule is evaluated after \<^verbatim>\<open>handleIfZodNumber\<close>, which has by then
  written the coercion flag into the key's node: that write is the one effect left.
\<close>

theorem hidden_key_effects:
  assumes "isHidden (resolveDependencies env name)"
  shows "AutoFormObject_key env fieldConfig path name item
           = \<lparr>element = None, nodeAfter = handleIfZodNumber item, configLookups = []\<rparr>"
  using assms by (simp add: AutoFormObject_key_def Let_def)

theorem hidden_key_effects_witness:
  "AutoFormObject_key exampleEnv
      (Some (FieldConfig None None [(''secret'', FieldConfig (Some (Named ''string'')) None [])]))
      [] ''secret'' (ZodType None (ZodOptional (ZodType None (ZodNumber False))))
   = \<lparr>element = None,
      nodeAfter = ZodType None (ZodOptional (ZodType None (ZodNumber True))),
      configLookups = []\<rparr>"
  using hidden_key_effects
          [of exampleEnv "''secret''"
              "Some (FieldConfig None None [(''secret'', FieldConfig (Some (Named ''string'')) None [])])"
              "[]" "ZodType None (ZodOptional (ZodType None (ZodNumber False)))"]
  by (simp add: exampleEnv_def handleIfZodNumber_def)

text \<open>
  C3 as stated fails for a hidden number key: the walk leaves its node with
  \<^verbatim>\<open>coerce\<close> set, where the shape had it unset.
\<close>

theorem hidden_number_mutated_counterexample:
  "AutoFormObject exampleEnv
      (Some (ZodType None (ZodObject [(''secret'', ZodType None (ZodNumber False))]))) None []
   = Some \<lparr>children = [None],
           shapeAfter = [(''secret'', ZodType None (ZodNumber True))],
           lookups = []\<rparr>
   \<and> isHidden (resolveDependencies exampleEnv ''secret'')"
  by (simp add: exampleEnv_def AutoFormObject_def AutoFormObject_key_def handleIfZodNumber_def Let_def)

lemma handleIfZodNumber_cases:
  "unwrapInnerType (handleIfZodNumber item) = unwrapInnerType item
   \<or> unwrapInnerType (handleIfZodNumber item) = setCoerce (unwrapInnerType item)"
proof (cases item)
  case (ZodType d df)
  show ?thesis
  proof (cases df)
    case (ZodOptional t)
    then show ?thesis
      using ZodType by (cases t rule: setCoerce.cases) (simp_all add: handleIfZodNumber_def)
  next
    case (ZodDefault t)
    then show ?thesis
      using ZodType by (cases t rule: setCoerce.cases) (simp_all add: handleIfZodNumber_def)
  next
    case (ZodOther s inner)
    show ?thesis
    proof (cases inner)
      case None
      then show ?thesis
        using ZodType ZodOther by (simp add: handleIfZodNumber_def)
    next
      case (Some t)
      then show ?thesis
        using ZodType ZodOther
        by (cases t rule: setCoerce.cases) (simp_all add: handleIfZodNumber_def)
    qed
  qed (simp_all add: ZodType handleIfZodNumber_def)
qed

lemma setCoerce_array: "(zodDef (setCoerce t) = ZodArray e) = (zodDef t = ZodArray e)"
  by (cases t rule: setCoerce.cases) simp_all

lemma handled_array_iff:
  "(zodDef (unwrapInnerType (handleIfZodNumber item)) = ZodArray e)
     = (zodDef (unwrapInnerType item) = ZodArray e)"
  using handleIfZodNumber_cases [of item] by (auto simp: setCoerce_array)

lemma not_array_info:
  assumes "\<forall>e. zodDef (unwrapInnerType item) \<noteq> ZodArray e"
  shows "\<not> isPrimitiveArray (isZodPrimitiveArray (handleIfZodNumber item))
       \<and> \<not> isEnumOfPrimitives (isZodPrimitiveArray (handleIfZodNumber item))"
proof -
  have "\<forall>e. zodDef (unwrapInnerType (handleIfZodNumber item)) \<noteq> ZodArray e"
    using assms by (simp add: handled_array_iff)
  then show ?thesis
    by (cases "zodDef (unwrapInnerType (handleIfZodNumber item))")
       (simp_all add: isZodPrimitiveArray_def)
qed

lemma array_info:
  assumes "zodDef (unwrapInnerType item) = ZodArray elem"
  shows "isZodPrimitiveArray (handleIfZodNumber item)
           = \<lparr>isPrimitiveArray = isPrimitiveDef (zodDef elem),
              isEnumOfPrimitives = isEnumDef (zodDef elem), innerType = elem\<rparr>"
proof -
  have "zodDef (unwrapInnerType (handleIfZodNumber item)) = ZodArray elem"
    using assms by (simp add: handled_array_iff)
  then show ?thesis
    by (simp add: isZodPrimitiveArray_def)
qed

text \<open>
  C8. A key whose base type is an array and which no dependency rule hides: when the
  node, stripped of its wrappers (the optional and default wrappers, and any other
  node that has an inner type), is an array whose element type is a string, a number,
  a boolean or an enum, the walker returns one form field for the key, of field type
  \<open>selectmultiinput\<close>, with \<^verbatim>\<open>creatable\<close> true exactly when the element type is not
  an enum; in every other case it returns the \<^verbatim>\<open>AutoFormArray\<close> sub-form.
\<close>

theorem array_key_multiselect_or_subform:
  assumes "getBaseType env (handleIfZodNumber item) = ''ZodArray''"
    and "\<not> isHidden (resolveDependencies env name)"
  shows "(case zodDef (unwrapInnerType item) of
            ZodArray elem \<Rightarrow>
              if isPrimitiveDef (zodDef elem) \<or> isEnumDef (zodDef elem)
              then (\<exists>f ip. element (AutoFormObject_key env fieldConfig path name item) = Some (FormField f)
                     \<and> fieldType (fieldConfigItem f) = Some (Named ''selectmultiinput'')
                     \<and> inputProps (fieldConfigItem f) = Some ip
                     \<and> ip ''creatable'' = Some (PBool (\<not> isEnumDef (zodDef elem)))
                     \<and> InputComponent f = INPUT_COMPONENTS env ''selectmultiinput''
                     \<and> fieldKey f = join_dot (path @ [name]))
              else (\<exists>a. element (AutoFormObject_key env fieldConfig path name item)
                           = Some (AutoFormArray a))
          | other \<Rightarrow> (\<exists>a. element (AutoFormObject_key env fieldConfig path name item)
                           = Some (AutoFormArray a)))"
proof (cases "\<exists>elem. zodDef (unwrapInnerType item) = ZodArray elem")
  case True
  then obtain elem where elem: "zodDef (unwrapInnerType item) = ZodArray elem"
    by blast
  show ?thesis
    using assms by (simp add: elem AutoFormObject_key_def array_info [OF elem] Let_def)
next
  case False
  then have no: "\<forall>e. zodDef (unwrapInnerType item) \<noteq> ZodArray e"
    by simp
  have "\<exists>a. element (AutoFormObject_key env fieldConfig path name item) = Some (AutoFormArray a)"
    using assms not_array_info [OF no] by (simp add: AutoFormObject_key_def Let_def)
  then show ?thesis
    using no by (cases "zodDef (unwrapInnerType item)") simp_all
qed

text \<open>
  Four keys: a defaulted optional array of strings (creatable), an array of an enum
  (not creatable), an array of objects (the sub-form), and a nullable array of numbers
  under a base-type helper that steps through every inner type (creatable).
\<close>

theorem array_key_multiselect_or_subform_witness:
  "element (AutoFormObject_key exampleEnv None [''profile''] ''tags''
      (ZodType None (ZodDefault (ZodType None (ZodOptional (ZodType None (ZodArray (ZodType None ZodString))))))))
   = Some (FormField
       \<lparr>fieldKey = ''profile.tags'', fieldLabel = ''tags'',
        fieldConfigItem = FieldConfig (Some (Named ''selectmultiinput''))
                            (Some [''creatable'' \<mapsto> PBool True]) [],
        zodInputProps = [''required'' \<mapsto> PBool True],
        fieldIsRequired = True, fieldDisabled = False,
        zodItem = ZodType None ZodString,
        InputComponent = Some 3\<rparr>)
   \<and> element (AutoFormObject_key exampleEnv None [] ''colours''
      (ZodType None (ZodArray (ZodType None (ZodEnum [''red'', ''green''])))))
   = Some (FormField
       \<lparr>fieldKey = ''colours'', fieldLabel = ''colours'',
        fieldConfigItem = FieldConfig (Some (Named ''selectmultiinput''))
                            (Some [''creatable'' \<mapsto> PBool False]) [],
        zodInputProps = [''required'' \<mapsto> PBool True],
        fieldIsRequired = True, fieldDisabled = False,
        zodItem = ZodType None (ZodEnum [''red'', ''green'']),
        InputComponent = Some 3\<rparr>)
   \<and> element (AutoFormObject_key exampleEnv None [] ''addresses''
      (ZodType None (ZodArray (ZodType None (ZodObject [(''street'', ZodType None ZodString)])))))
   = Some (AutoFormArray
       \<lparr>arrKey = ''addresses'', arrName = ''addresses'',
        arrItem = ZodType None (ZodArray (ZodType None (ZodObject [(''street'', ZodType None ZodString)]))),
        arrFieldConfig = FieldConfig None None [],
        arrPath = [''addresses'']\<rparr>)
   \<and> element (AutoFormObject_key (exampleEnv\<lparr>getBaseType := (\<lambda>t. typeName (unwrapInnerType t))\<rparr>) None [] ''scores''
      (ZodType None (ZodOther ''ZodNullable'' (Some (ZodType None (ZodArray (ZodType None (ZodNumber False))))))))
   = Some (FormField
       \<lparr>fieldKey = ''scores'', fieldLabel = ''scores'',
        fieldConfigItem = FieldConfig (Some (Named ''selectmultiinput''))
                            (Some [''creatable'' \<mapsto> PBool True]) [],
        zodInputProps = [''required'' \<mapsto> PBool True],
        fieldIsRequired = True, fieldDisabled = False,
        zodItem = ZodType None (ZodNumber False),
        InputComponent = Some 3\<rparr>)"
  using array_key_multiselect_or_subform
          [of exampleEnv "ZodType None (ZodDefault (ZodType None (ZodOptional (ZodType None (ZodArray (ZodType None ZodString))))))" "''tags''" None "[''profile'']"]
        array_key_multiselect_or_subform
          [of exampleEnv "ZodType None (ZodArray (ZodType None (ZodEnum [''red'', ''green''])))" "''colours''" None "[]"]
        array_key_multiselect_or_subform
          [of exampleEnv "ZodType None (ZodArray (ZodType None (ZodObject [(''street'', ZodType None ZodString)])))" "''addresses''" None "[]"]
        array_key_multiselect_or_subform
          [of "(exampleEnv\<lparr>getBaseType := (\<lambda>t. typeName (unwrapInnerType t))\<rparr>)" "ZodType None (ZodOther ''ZodNullable'' (Some (ZodType None (ZodArray (ZodType None (ZodNumber False))))))" "''scores''" None "[]"]
  by (simp add: exampleEnv_def AutoFormObject_key_def isZodPrimitiveArray_def handleIfZodNumber_def
        getBaseType_spec_def configAt_def emptyConfig_def Let_def)

end
